theory Spec2Isabelle
  imports Complex_Main
begin

section \<open>Numbers and strings of the JavaScript source\<close>

text \<open>
  The menu of \<^verbatim>\<open>src/daemon/Menu.js\<close> computes with JavaScript numbers. Angles, sizes and
  pointer coordinates are modelled as exact rationals: the rounding of IEEE doubles, NaN
  and the infinities are outside the model (a JSON menu description cannot contain the
  latter two). List indices and counters are natural numbers or integers.
\<close>

text \<open>
  The remainder operator \<^verbatim>\<open>x % m\<close> of JavaScript truncates the quotient towards zero, so
  the result has the sign of \<open>x\<close>. The source only ever divides by 360.
\<close>

definition js_rem :: "rat \<Rightarrow> rat \<Rightarrow> rat" where
  "js_rem x m = x - m * of_int (if 0 \<le> x / m then \<lfloor>x / m\<rfloor> else \<lceil>x / m\<rceil>)"

text \<open>\<^verbatim>\<open>Math.floor\<close>, as a rational again.\<close>

definition js_floor :: "rat \<Rightarrow> rat" where
  "js_floor x = of_int \<lfloor>x\<rfloor>"

text \<open>
  String concatenation with a number, \<^verbatim>\<open>'/' + i\<close>, writes a list index in decimal.
\<close>

fun string_of_nat :: "nat \<Rightarrow> string" where
  "string_of_nat n =
     (if n < 10 then [''0123456789'' ! n]
      else string_of_nat (n div 10) @ [''0123456789'' ! (n mod 10)])"

declare string_of_nat.simps [simp del]

text \<open>
  Truthiness of an optional string (\<^verbatim>\<open>if (item.id)\<close>, \<^verbatim>\<open>if (parentID)\<close>): \<^verbatim>\<open>undefined\<close>
  and the empty string are falsy.
\<close>

fun truthy_string :: "string option \<Rightarrow> bool" where
  "truthy_string None = False"
| "truthy_string (Some s) = (s \<noteq> [])"

section \<open>The menu description passed to show\<close>

text \<open>
  A show-request carries a tree \<^verbatim>\<open>{name?, icon?, angle?, id?, children?}\<close>. Every
  property may be absent, which is \<open>None\<close>. The code mutates the tree in place; the model
  returns the updated tree.
\<close>

datatype item = Item
  (item_name: "string option")
  (item_icon: "string option")
  (item_angle: "rat option")
  (item_id: "string option")
  (item_children: "item list option")

fun set_angle :: "item \<Rightarrow> rat option \<Rightarrow> item" where
  "set_angle (Item n ic a i ch) a' = Item n ic a' i ch"

fun set_id :: "item \<Rightarrow> string option \<Rightarrow> item" where
  "set_id (Item n ic a i ch) i' = Item n ic a i' ch"

fun set_children :: "item \<Rightarrow> item list option \<Rightarrow> item" where
  "set_children (Item n ic a i ch) ch' = Item n ic a i ch'"

fun set_name :: "item \<Rightarrow> string option \<Rightarrow> item" where
  "set_name (Item n ic a i ch) n' = Item n' ic a i ch"

fun set_icon :: "item \<Rightarrow> string option \<Rightarrow> item" where
  "set_icon (Item n ic a i ch) ic' = Item n ic' a i ch"

section \<open>The angle solver: \<^verbatim>\<open>_updateItemAngles\<close>\<close>

text \<open>
  The fixed angles of one menu level, each with the index of its item:
  \<^verbatim>\<open>if ('angle' in item && item.angle >= 0) fixedAngles.push({angle, index})\<close>.
  An item with a negative angle is not collected.
\<close>

definition collectFixedAngles :: "item list \<Rightarrow> (rat \<times> nat) list" where
  "collectFixedAngles items =
     concat (map (\<lambda>(index, item).
        (case item_angle item of
           Some a \<Rightarrow> (if a \<ge> 0 then [(a, index)] else [])
         | None \<Rightarrow> []))
       (enumerate 0 items))"

text \<open>
  The first check loop: the fixed angles increase strictly and lie in \<open>[0, 360)\<close>. The
  first argument is the angle of the previous entry (\<open>None\<close> for \<open>i = 0\<close>). The result
  \<open>False\<close> is the loop's \<^verbatim>\<open>return false\<close>.
\<close>

fun checkMonotonic :: "rat option \<Rightarrow> (rat \<times> nat) list \<Rightarrow> bool" where
  "checkMonotonic prev [] = True"
| "checkMonotonic prev ((a, index) # rest) =
     (if (case prev of Some p \<Rightarrow> a \<le> p | None \<Rightarrow> False) then False
      else if a < 0 \<or> a \<ge> 360 then False
      else checkMonotonic (Some a) rest)"

text \<open>
  The second check loop: no fixed angle is closer than one degree to the parent link. It
  only runs when \<^verbatim>\<open>parentAngle != undefined\<close>.
\<close>

fun checkParentCollision :: "rat option \<Rightarrow> (rat \<times> nat) list \<Rightarrow> bool" where
  "checkParentCollision None fixedAngles = True"
| "checkParentCollision (Some p) [] = True"
| "checkParentCollision (Some p) ((a, index) # rest) =
     (if \<bar>a - p\<bar> < 1 then False else checkParentCollision (Some p) rest)"

text \<open>
  The inner \<^verbatim>\<open>while (index != wedgeEndIndex)\<close> loop, which assigns an angle to every item
  between two fixed angles. Both indices are below \<^verbatim>\<open>items.length\<close> whenever the source
  reaches the loop; the guard on them makes the function total.
\<close>

function assignWedge ::
  "item list \<Rightarrow> nat \<Rightarrow> nat \<Rightarrow> nat \<Rightarrow> bool \<Rightarrow> rat \<Rightarrow> rat \<Rightarrow> rat option \<Rightarrow> item list" where
  "assignWedge items index wedgeEndIndex count parentGapRequired
       wedgeBeginAngle wedgeItemGap parentAngle =
     (if index \<noteq> wedgeEndIndex \<and> index < length items \<and> wedgeEndIndex < length items then
        (let itemAngle = wedgeBeginAngle + wedgeItemGap * of_nat count;
             insertGap = (parentGapRequired \<and>
                (case parentAngle of
                   Some p \<Rightarrow> itemAngle + wedgeItemGap / 2 - p > 0
                 | None \<Rightarrow> False));
             count1 = (if insertGap then count + 1 else count);
             itemAngle1 = (if insertGap then wedgeBeginAngle + wedgeItemGap * of_nat count1
                           else itemAngle);
             parentGapRequired1 = (if insertGap then False else parentGapRequired);
             items1 = items[index := set_angle (items ! index) (Some (js_rem itemAngle1 360))]
         in assignWedge items1 ((index + 1) mod length items) wedgeEndIndex (count1 + 1)
              parentGapRequired1 wedgeBeginAngle wedgeItemGap parentAngle)
      else items)"
  by pat_completeness auto
termination
proof (relation "measure (\<lambda>(items, index, wedgeEndIndex, _).
          (wedgeEndIndex + length items - index) mod length items)", goal_cases)
  case 1
  show ?case by simp
next
  case (2 items index wedgeEndIndex count parentGapRequired wedgeBeginAngle wedgeItemGap
          parentAngle itemAngle insertGap count1 itemAngle1 parentGapRequired1 items1)
  have step: "(e + n - (i + 1) mod n) mod n < (e + n - i) mod n"
    if "i \<noteq> e" "i < n" "e < n" for i e n :: nat
  proof (cases "i < e")
    case True
    then have "(i + 1) mod n = i + 1" using that by simp
    moreover have "(e + n - (i + 1)) mod n = e - (i + 1)"
      using True that by (simp add: mod_if)
    moreover have "(e + n - i) mod n = e - i"
      using True that by (simp add: mod_if)
    ultimately show ?thesis using True by simp
  next
    case False
    then have lt: "e < i" using that by simp
    have b: "(e + n - i) mod n = e + n - i"
      using lt that by simp
    show ?thesis
    proof (cases "i + 1 = n")
      case True
      then have "(i + 1) mod n = 0" by simp
      then have "(e + n - (i + 1) mod n) mod n = e" using that by simp
      with b lt that show ?thesis by simp
    next
      case False
      then have "(i + 1) mod n = i + 1" using that by simp
      moreover have "(e + n - (i + 1)) mod n = e + n - (i + 1)"
        using lt that by simp
      ultimately show ?thesis using b lt that by simp
    qed
  qed
  from 2 show ?case using step by simp
qed

declare assignWedge.simps [simp del]

text \<open>
  The loop over the wedges, \<^verbatim>\<open>for (let i = 0; i < fixedAngles.length; i++)\<close>. The
  variable \<^verbatim>\<open>parentAngle\<close> is raised by a full turn inside the loop body and keeps that
  value for the following wedges, so it is part of the loop state.
\<close>

function assignWedges ::
  "(rat \<times> nat) list \<Rightarrow> nat \<Rightarrow> item list \<Rightarrow> rat option \<Rightarrow> item list" where
  "assignWedges fixedAngles i items parentAngle =
     (if i < length fixedAngles then
        (let wedgeBeginIndex = snd (fixedAngles ! i);
             wedgeBeginAngle = fst (fixedAngles ! i);
             wedgeEndIndex = snd (fixedAngles ! ((i + 1) mod length fixedAngles));
             wedgeEndAngle0 = fst (fixedAngles ! ((i + 1) mod length fixedAngles));
             wedgeEndAngle = (if wedgeEndAngle0 \<le> wedgeBeginAngle then wedgeEndAngle0 + 360
                              else wedgeEndAngle0);
             wedgeItemCount0 = nat ((int wedgeEndIndex - int wedgeBeginIndex - 1
                                       + int (length items)) mod int (length items));
             parentAngle1 = (case parentAngle of
                   Some p \<Rightarrow> Some (if p < wedgeBeginAngle then p + 360 else p)
                 | None \<Rightarrow> None);
             parentInWedge = (case parentAngle1 of
                   Some p \<Rightarrow> p > wedgeBeginAngle \<and> p < wedgeEndAngle
                 | None \<Rightarrow> False);
             wedgeItemCount = (if parentInWedge then wedgeItemCount0 + 1 else wedgeItemCount0);
             wedgeItemGap = (wedgeEndAngle - wedgeBeginAngle) / (of_nat wedgeItemCount + 1);
             items1 = assignWedge items ((wedgeBeginIndex + 1) mod length items) wedgeEndIndex
                        1 parentInWedge wedgeBeginAngle wedgeItemGap parentAngle1
         in assignWedges fixedAngles (i + 1) items1 parentAngle1)
      else items)"
  by pat_completeness auto
termination
  by (relation "measure (\<lambda>(fixedAngles, i, _). length fixedAngles - i)") auto

declare assignWedges.simps [simp del]

text \<open>
  One level of \<^verbatim>\<open>_updateItemAngles\<close>: everything between the test for an empty list and
  the recursion into the children. The result is the value of the early
  \<^verbatim>\<open>return false\<close> (\<open>False\<close>) or \<open>True\<close>, with the items as the code leaves them.
\<close>

definition solveLevel :: "item list \<Rightarrow> rat option \<Rightarrow> bool \<times> item list" where
  "solveLevel items parentAngle =
     (let fixedAngles = collectFixedAngles items in
      if \<not> checkMonotonic None fixedAngles then (False, items)
      else if \<not> checkParentCollision parentAngle fixedAngles then (False, items)
      else if fixedAngles = [] then
        (let firstAngle = (if (case parentAngle of Some p \<Rightarrow> p < 180 | None \<Rightarrow> False)
                           then 270 else 90);
             items1 = items[0 := set_angle (items ! 0) (Some firstAngle)]
         in (True, assignWedges [(firstAngle, 0)] 0 items1 parentAngle))
      else (True, assignWedges fixedAngles 0 items parentAngle))"

text \<open>
  The parent angle handed to the children of an item, \<^verbatim>\<open>(item.angle + 180) % 360\<close>.
  Every item has an angle when the recursion starts. Were it absent, the sum would be NaN,
  for which every comparison of the callee is false, exactly as for an undefined
  \<^verbatim>\<open>parentAngle\<close>; hence \<open>None\<close> in that case.
\<close>

definition childParentAngle :: "item \<Rightarrow> rat option" where
  "childParentAngle item =
     (case item_angle item of Some a \<Rightarrow> Some (js_rem (a + 180) 360) | None \<Rightarrow> None)"

text \<open>
  The solver of one level changes angles only, which the termination of the recursion
  over the tree relies on.
\<close>

lemma set_angle_children: "item_children (set_angle it a) = item_children it"
  by (cases it) simp

lemma assignWedge_children:
  "map item_children (assignWedge items index e c g b gap pa) = map item_children items"
proof (induction items index e c g b gap pa rule: assignWedge.induct)
  case (1 items index e c g b gap pa)
  show ?case
  proof (cases "index \<noteq> e \<and> index < length items \<and> e < length items")
    case True
    then show ?thesis
      using 1 by (subst assignWedge.simps) (simp add: Let_def map_update set_angle_children list_update_same_conv)
  next
    case False
    then show ?thesis by (subst assignWedge.simps) auto
  qed
qed

lemma assignWedges_children:
  "map item_children (assignWedges fa i items pa) = map item_children items"
proof (induction fa i items pa rule: assignWedges.induct)
  case (1 fa i items pa)
  show ?case
  proof (cases "i < length fa")
    case True
    then show ?thesis
      using 1 by (subst assignWedges.simps) (simp add: Let_def assignWedge_children)
  next
    case False
    then show ?thesis by (subst assignWedges.simps) simp
  qed
qed

lemma solveLevel_children:
  "map item_children (snd (solveLevel items pa)) = map item_children items"
proof -
  have "(map item_children items)[0 := item_children (items ! 0)] = map item_children items"
    by (cases items) simp_all
  then show ?thesis
    by (simp add: solveLevel_def Let_def assignWedges_children map_update set_angle_children)
qed

lemma children_size:
  assumes "it \<in> set items" "item_children it = Some cs"
  shows "size_list size cs < size_list size items"
proof -
  have "size_list size cs < size it" using assms(2) by (cases it) simp
  moreover have "size it \<le> size_list size items" using assms(1) by (simp add: size_list_estimation')
  ultimately show ?thesis by simp
qed

text \<open>
  \<^verbatim>\<open>_updateItemAngles(items, parentAngle)\<close>. The result pairs the returned boolean with
  the items as the call leaves them. The recursion into the children sits in the callback
  of \<^verbatim>\<open>items.forEach\<close>: the \<^verbatim>\<open>return false\<close> written there leaves the callback only, so the
  result of a recursive call is dropped and the function goes on to \<^verbatim>\<open>return true\<close>.
\<close>

function updateItemAngles :: "item list \<Rightarrow> rat option \<Rightarrow> bool \<times> item list" where
  "updateItemAngles items parentAngle =
     (if items = [] then (True, items)
      else (case solveLevel items parentAngle of
              (False, items1) \<Rightarrow> (False, items1)
            | (True, items1) \<Rightarrow>
                (True, map (\<lambda>item.
                   (case item_children item of
                      None \<Rightarrow> item
                    | Some cs \<Rightarrow>
                        set_children item
                          (Some (snd (updateItemAngles cs (childParentAngle item))))))
                  items1)))"
  by pat_completeness auto
termination
proof (relation "measure (\<lambda>(items, parentAngle). size_list size items)", goal_cases)
  case 1
  show ?case by simp
next
  case (2 items parentAngle x y z cs)
  have "map item_children y = map item_children items"
    using solveLevel_children [of items parentAngle] 2(2) by (metis snd_conv)
  moreover have "Some cs \<in> set (map item_children y)"
    using 2(4,5) by (metis imageI list.set_map)
  ultimately have "Some cs \<in> item_children ` set items" by simp
  then obtain it where "it \<in> set items" "item_children it = Some cs" by force
  then show ?case using children_size by simp
qed

declare updateItemAngles.simps [simp del]

section \<open>Identifiers: \<^verbatim>\<open>_updateItemIDs\<close>\<close>

text \<open>
  \<^verbatim>\<open>_updateItemIDs(items, parentID)\<close> gives every item without a truthy id the path of its
  list indices and descends with the item's id. \<open>updateItemIDsFrom i\<close> is the loop from
  index \<open>i\<close> on, \<open>updateItemID\<close> its body.
\<close>

fun updateItemID :: "nat \<Rightarrow> string option \<Rightarrow> item \<Rightarrow> item"
  and updateItemIDsFrom :: "nat \<Rightarrow> string option \<Rightarrow> item list \<Rightarrow> item list" where
  "updateItemID i parentID (Item n ic a idv ch) =
     (let id1 = (if \<not> truthy_string idv then
                   (case parentID of
                      Some p \<Rightarrow> (if p \<noteq> [] then Some (p @ ''/'' @ string_of_nat i)
                                 else Some (''/'' @ string_of_nat i))
                    | None \<Rightarrow> Some (''/'' @ string_of_nat i))
                 else idv)
      in Item n ic a id1
           (case ch of None \<Rightarrow> None | Some cs \<Rightarrow> Some (updateItemIDsFrom 0 id1 cs)))"
| "updateItemIDsFrom i parentID [] = []"
| "updateItemIDsFrom i parentID (item # items) =
     updateItemID i parentID item # updateItemIDsFrom (i + 1) parentID items"

definition updateItemIDs :: "item list \<Rightarrow> string option \<Rightarrow> item list" where
  "updateItemIDs items parentID = updateItemIDsFrom 0 parentID items"

section \<open>Placement: \<^verbatim>\<open>_clampToToMonitor\<close>\<close>

text \<open>
  The settings the clamp reads with \<^verbatim>\<open>get_double\<close>, and the size of the current monitor.
  Both are inputs of the model.
\<close>

record settings =
  wedge_inner_radius :: rat
  center_size :: rat
  center_size_hover :: rat
  child_size :: rat
  child_offset :: rat
  child_size_hover :: rat
  child_offset_hover :: rat
  grandchild_size :: rat
  grandchild_offset :: rat
  grandchild_size_hover :: rat
  grandchild_offset_hover :: rat
  global_scale :: rat

record monitor =
  width :: rat
  height :: rat

text \<open>The largest extent \<^verbatim>\<open>maxSize\<close>, a diameter, as the source computes it.\<close>

definition maxSize :: "settings \<Rightarrow> rat" where
  "maxSize st =
     (let wedgeRadius = wedge_inner_radius st;
          centerRadius = max (center_size st / 2) (center_size_hover st / 2);
          childRadius = max (child_size st / 2 + child_offset st)
                            (child_size_hover st / 2 + child_offset_hover st);
          grandchildRadius =
            max (child_offset st + grandchild_size st / 2 + grandchild_offset st)
                (child_offset_hover st + grandchild_size_hover st / 2
                   + grandchild_offset_hover st);
          m0 = wedgeRadius;
          m1 = max m0 centerRadius;
          m2 = max m1 childRadius;
          m3 = max m2 grandchildRadius
      in m3 * (2 * global_scale st))"

text \<open>The lower bound \<^verbatim>\<open>min = margin + maxSize / 2\<close> of both axes.\<close>

definition clampMin :: "settings \<Rightarrow> rat \<Rightarrow> rat" where
  "clampMin st margin = margin + maxSize st / 2"

definition clampToToMonitor ::
  "settings \<Rightarrow> monitor \<Rightarrow> rat \<Rightarrow> rat \<Rightarrow> rat \<Rightarrow> rat \<times> rat" where
  "clampToToMonitor st mon x y margin =
     (let minv = clampMin st margin;
          maxX = width mon - minv;
          maxY = height mon - minv;
          posX = min (max x minv) maxX;
          posY = min (max y minv) maxY
      in (js_floor posX, js_floor posY))"

section \<open>The menu and its items\<close>

text \<open>
  Modelled from the spec: the states of a menu item. \<^verbatim>\<open>MenuItemState\<close> is declared in
  \<^verbatim>\<open>daemon/MenuItem.js\<close>, which is not among the sources.
\<close>

datatype MenuItemState =
  CENTER | CENTER_HOVERED | CHILD | CHILD_HOVERED | CHILD_DRAGGED
  | GRANDCHILD | PARENT | PARENT_HOVERED | INVISIBLE

text \<open>
  Modelled from the spec: a \<^verbatim>\<open>MenuItem\<close> object. It holds what its constructor is given
  (id, caption, icon, angle), its state and active child index (absent until \<^verbatim>\<open>setState\<close>
  is called), its child items in order and whether \<^verbatim>\<open>destroy()\<close> was called on it. The
  objects live in a store, a list addressed by position, since the selection chain, the
  dragged child and the root all refer to the same objects.
\<close>

record MenuItem =
  mi_id :: "string option"
  mi_caption :: "string option"
  mi_icon :: "string option"
  mi_angle :: "rat option"
  mi_state :: "MenuItemState option"
  mi_activeChildIndex :: "int option"
  mi_children :: "nat list"
  mi_destroyed :: bool

text \<open>
  An id of a menu is a number or a string. \<^verbatim>\<open>if (this._menuID)\<close> tests its truthiness:
  \<^verbatim>\<open>null\<close>, the number 0 and the empty string are falsy.
\<close>

datatype menu_id = IdNum int | IdStr string

fun truthy_id :: "menu_id option \<Rightarrow> bool" where
  "truthy_id None = False"
| "truthy_id (Some (IdNum n)) = (n \<noteq> 0)"
| "truthy_id (Some (IdStr s)) = (s \<noteq> [])"

text \<open>The error codes of \<^verbatim>\<open>DBusInterface.errorCodes\<close> that show returns.\<close>

datatype errorCode = eUnknownError | ePropertyMissing | eInvalidAngles | eAlreadyActive

text \<open>
  The calls to the collaborators of the menu, in the order they are made: the callbacks
  \<^verbatim>\<open>onSelect\<close> and \<^verbatim>\<open>onCancel\<close>, the pointer warp, the configuration of the selection
  wedges, showing and hiding of the background and the redraw of the tree. The positions
  of the actors (\<^verbatim>\<open>set_translation\<close>, \<^verbatim>\<open>transform_stage_point\<close>, the trace geometry) and
  the easing settings belong to Clutter and are not modelled.
\<close>

datatype effect =
  OnSelect "menu_id option" "string option"
  | OnCancel "menu_id option"
  | WarpPointer rat rat
  | SetItemAngles "rat option list" "rat option"
  | BackgroundShow bool
  | BackgroundHide
  | Redraw

record menu =
  menuID :: "menu_id option"
  previewMode :: bool
  draggedChild :: "nat option"
  menuSelectionChain :: "nat list"
  menuRoot :: "nat option"
  heap :: "MenuItem list"
  effects :: "effect list"

text \<open>The fields as the constructor leaves them.\<close>

definition newMenu :: menu where
  "newMenu = \<lparr>menuID = None, previewMode = False, draggedChild = None,
              menuSelectionChain = [], menuRoot = None, heap = [], effects = []\<rparr>"

text \<open>
  What the handlers read from outside: the pointer position with the state of the primary
  button (\<^verbatim>\<open>global.get_pointer()\<close>), the settings and the current monitor.
\<close>

record pointer =
  pointerX :: rat
  pointerY :: rat
  button1 :: bool

record config =
  cfg_settings :: settings
  cfg_monitor :: monitor

definition getItem :: "MenuItem list \<Rightarrow> nat \<Rightarrow> MenuItem option" where
  "getItem h a = (if a < length h then Some (h ! a) else None)"

text \<open>
  Modelled from the spec: \<^verbatim>\<open>MenuItem.setState(state, activeChildIndex)\<close> assigns the state
  of the item it is called on; \<^verbatim>\<open>addMenuItem\<close> appends a child; \<^verbatim>\<open>destroy\<close> marks the
  actor as destroyed.
\<close>

definition setState :: "nat \<Rightarrow> MenuItemState \<Rightarrow> int option \<Rightarrow> MenuItem list \<Rightarrow> MenuItem list" where
  "setState a st idx h = h[a := (h ! a)\<lparr>mi_state := Some st, mi_activeChildIndex := idx\<rparr>]"

definition addMenuItem :: "nat \<Rightarrow> nat \<Rightarrow> MenuItem list \<Rightarrow> MenuItem list" where
  "addMenuItem p q h = h[p := (h ! p)\<lparr>mi_children := mi_children (h ! p) @ [q]\<rparr>]"

definition destroy :: "nat \<Rightarrow> MenuItem list \<Rightarrow> MenuItem list" where
  "destroy a h = h[a := (h ! a)\<lparr>mi_destroyed := True\<rparr>]"

text \<open>
  The local function \<^verbatim>\<open>createMenuItem\<close> of show: a new object for the item, then one for
  each child, added in order. The result is the address of the new object and the store.
\<close>

fun createMenuItem :: "item \<Rightarrow> MenuItem list \<Rightarrow> nat \<times> MenuItem list"
  and createChildren :: "item list \<Rightarrow> nat \<Rightarrow> MenuItem list \<Rightarrow> MenuItem list" where
  "createMenuItem (Item n ic a i ch) h =
     (let p = length h;
          h1 = h @ [\<lparr>mi_id = i, mi_caption = n, mi_icon = ic, mi_angle = a,
                     mi_state = None, mi_activeChildIndex = None, mi_children = [],
                     mi_destroyed = False\<rparr>]
      in (p, (case ch of None \<Rightarrow> h1 | Some cs \<Rightarrow> createChildren cs p h1)))"
| "createChildren [] p h = h"
| "createChildren (c # cs) p h =
     (case createMenuItem c h of (q, h1) \<Rightarrow> createChildren cs p (addMenuItem p q h1))"

text \<open>The angles of the child items of an object, for \<^verbatim>\<open>setItemAngles\<close>.\<close>

definition childAngles :: "MenuItem list \<Rightarrow> nat \<Rightarrow> rat option list" where
  "childAngles h a = map (\<lambda>c. mi_angle (h ! c)) (mi_children (h ! a))"

text \<open>\<^verbatim>\<open>(angle + 180) % 360\<close> for the angle of an object.\<close>

definition backAngle :: "rat option \<Rightarrow> rat option" where
  "backAngle a = map_option (\<lambda>x. js_rem (x + 180) 360) a"

text \<open>
  Clamping the pointer with margin 10 and warping it when the clamped position differs.
\<close>

definition clampAndWarp :: "config \<Rightarrow> pointer \<Rightarrow> effect list" where
  "clampAndWarp cfg ptr =
     (case clampToToMonitor (cfg_settings cfg) (cfg_monitor cfg) (pointerX ptr) (pointerY ptr) 10
      of (clampedX, clampedY) \<Rightarrow>
        (if pointerX ptr \<noteq> clampedX \<or> pointerY ptr \<noteq> clampedY
         then [WarpPointer clampedX clampedY] else []))"

section \<open>\<^verbatim>\<open>show\<close> and \<^verbatim>\<open>_hide\<close>\<close>

definition hide :: "menu \<Rightarrow> menu" where
  "hide s =
     (if menuID s = None then s
      else s\<lparr>effects := effects s @ [BackgroundHide], menuID := None,
              draggedChild := None, menuSelectionChain := []\<rparr>)"

text \<open>
  \<^verbatim>\<open>show(menuID, structure, previewMode)\<close>. The further arguments are what the call reads
  from outside: the configuration, the pointer and whether the background can grab the
  input. The result is the returned value (an error code or \<^verbatim>\<open>this._menuID\<close>, which is the
  id just stored), the menu and the structure, which the caller still holds, as the call
  leaves them.
\<close>

definition "show" ::
  "config \<Rightarrow> pointer \<Rightarrow> bool \<Rightarrow> menu \<Rightarrow> menu_id \<Rightarrow> item \<Rightarrow> bool
     \<Rightarrow> (errorCode + menu_id) \<times> menu \<times> item" where
  "show cfg ptr grabOk s mid structure pm =
     (if truthy_id (menuID s) then (Inl eAlreadyActive, s, structure)
      else if \<not> (case item_children structure of Some cs \<Rightarrow> length cs > 0 | None \<Rightarrow> False)
        then (Inl ePropertyMissing, s, structure)
      else
        (let s1 = (case menuRoot s of Some r \<Rightarrow> s\<lparr>heap := destroy r (heap s)\<rparr> | None \<Rightarrow> s);
             s2 = s1\<lparr>previewMode := pm\<rparr>;
             st1 = (if item_name structure = None then set_name structure (Some ''root'')
                    else structure);
             st2 = (if item_icon st1 = None then set_icon st1 (Some ''image-missing'')
                    else st1);
             st3 = set_angle st2 (Some 0);
             (ok, cs1) = updateItemAngles (case item_children st3 of Some cs \<Rightarrow> cs | None \<Rightarrow> [])
                           None;
             st4 = set_children st3 (Some cs1)
         in if \<not> ok then (Inl eInvalidAngles, s2, st4)
            else
              (let st5 = set_id st4 (Some ''/'');
                   st6 = set_children st5 (Some (updateItemIDs cs1 None));
                   s3 = s2\<lparr>effects := effects s2 @ [BackgroundShow pm]\<rparr>
               in if \<not> grabOk then (Inl eUnknownError, s3, st6)
                  else
                    (let s4 = s3\<lparr>menuID := Some mid\<rparr>;
                         (r, h1) = createMenuItem st6 (heap s4);
                         h2 = setState r CENTER_HOVERED (Some (- 1)) h1;
                         s5 = s4\<lparr>menuRoot := Some r,
                                 menuSelectionChain := menuSelectionChain s4 @ [r],
                                 heap := h2,
                                 effects := effects s4 @ [Redraw, SetItemAngles (childAngles h2 r) None]
                                    @ (if pm then [] else clampAndWarp cfg ptr)\<rparr>
                     in (Inr mid, s5, st6)))))"

section \<open>The handlers of the selection events\<close>

text \<open>
  A handler returns \<open>None\<close> where the source raises a TypeError: reading a property of
  \<^verbatim>\<open>undefined\<close>, which is what an empty selection chain, a chain without a parent or a
  child index out of range yield. The assignments the source makes before it raises are
  not kept. An address outside the store, which no reference of the source can be, is
  treated like \<^verbatim>\<open>undefined\<close>.
\<close>

text \<open>
  The handler of \<^verbatim>\<open>child-selected-event\<close>. With the primary button held and a leaf as
  the target it returns at once.
\<close>

definition childSelected :: "config \<Rightarrow> pointer \<Rightarrow> nat \<Rightarrow> menu \<Rightarrow> menu option" where
  "childSelected cfg ptr index s =
     (case menuSelectionChain s of
        [] \<Rightarrow> None
      | parent # _ \<Rightarrow>
         (case getItem (heap s) parent of
            None \<Rightarrow> None
          | Some parentItem \<Rightarrow>
             (if index \<ge> length (mi_children parentItem) then None
              else
                (let child = mi_children parentItem ! index in
                 case getItem (heap s) child of
                   None \<Rightarrow> None
                 | Some childItem \<Rightarrow>
                    (if button1 ptr \<and> length (mi_children childItem) = 0 then Some s
                     else
                       (let s1 = s\<lparr>draggedChild := None\<rparr>;
                            h1 = setState parent PARENT (Some (int index)) (heap s1);
                            h2 = setState child CENTER_HOVERED None h1;
                            s2 = s1\<lparr>heap := h2,
                                    menuSelectionChain := child # menuSelectionChain s1\<rparr>;
                            s3 = s2\<lparr>effects := effects s2 @ clampAndWarp cfg ptr\<rparr>;
                            s4 = (if length (mi_children childItem) > 0
                                  then s3\<lparr>effects := effects s3 @
                                          [SetItemAngles (childAngles h2 child)
                                             (backAngle (mi_angle childItem))]\<rparr>
                                  else s3);
                            s5 = s4\<lparr>effects := effects s4 @ [Redraw]\<rparr>
                        in if length (mi_children childItem) = 0
                           then Some (hide (s5\<lparr>effects := effects s5 @
                                               [OnSelect (menuID s5) (mi_id childItem)]\<rparr>))
                           else Some s5))))))"


text \<open>The handler of \<^verbatim>\<open>cancel-selection-event\<close>.\<close>

definition cancelSelection :: "menu \<Rightarrow> menu" where
  "cancelSelection s = hide (s\<lparr>effects := effects s @ [OnCancel (menuID s)]\<rparr>)"

text \<open>
  The handler of \<^verbatim>\<open>transitions-completed\<close> of the background, at the end of a fade-out
  (opacity 0): the tree is destroyed and the reference to it dropped.
\<close>

definition transitionsCompleted :: "menu \<Rightarrow> menu" where
  "transitionsCompleted s =
     (case menuRoot s of
        Some r \<Rightarrow> s\<lparr>heap := destroy r (heap s), menuRoot := None\<rparr>
      | None \<Rightarrow> s)"




section \<open>Concrete inputs\<close>

text \<open>
  A configuration, a monitor and pointer positions on which the theorems below are
  evaluated. With these settings \<^verbatim>\<open>maxSize\<close> is 308 and the lower clamp bound for the
  margin 10 is 164.
\<close>

definition exampleSettings :: settings where
  "exampleSettings = \<lparr>wedge_inner_radius = 45, center_size = 100, center_size_hover = 110,
     child_size = 50, child_offset = 100, child_size_hover = 60, child_offset_hover = 113,
     grandchild_size = 15, grandchild_offset = 25, grandchild_size_hover = 20,
     grandchild_offset_hover = 31, global_scale = 1\<rparr>"

definition exampleConfig :: config where
  "exampleConfig = \<lparr>cfg_settings = exampleSettings,
                     cfg_monitor = \<lparr>width = 1920, height = 1080\<rparr>\<rparr>"

definition examplePointer :: pointer where
  "examplePointer = \<lparr>pointerX = 5, pointerY = 500, button1 = False\<rparr>"

definition leafItem :: "string \<Rightarrow> item" where
  "leafItem n = Item (Some n) None None None None"

text \<open>
  A menu with a submenu, the state \<open>exampleMenu\<close> in which show leaves a new menu for
  it, and \<open>fadingMenu\<close>, that menu after a cancelled selection: hidden, its tree still
  there until the fade-out ends.
\<close>

definition exampleStructure :: item where
  "exampleStructure = Item None None None None
     (Some [leafItem ''A'',
            Item (Some ''B'') None None None (Some [leafItem ''B1'', leafItem ''B2'']),
            leafItem ''C''])"

definition exampleMenu :: menu where
  "exampleMenu = fst (snd (show exampleConfig examplePointer True newMenu (IdStr ''m1'')
                             exampleStructure False))"

definition heldPointer :: pointer where
  "heldPointer = \<lparr>pointerX = 700, pointerY = 500, button1 = True\<rparr>"

definition fadingMenu :: menu where
  "fadingMenu = cancelSelection exampleMenu"

text \<open>
  A level whose fixed angles decrease, and a menu that has it below its only item.
\<close>

definition invalidLevel :: "item list" where
  "invalidLevel = [Item None None (Some 30) None None, Item None None (Some 10) None None]"

definition nestedInvalidStructure :: item where
  "nestedInvalidStructure =
     Item None None None None (Some [Item (Some ''A'') None None None (Some invalidLevel)])"

section \<open>Notions of the specification\<close>

text \<open>
  The target of a child-selected event exists and is a leaf: the selection chain has a
  center, the index is one of its children and that child has no children.
\<close>

definition targetIsLeaf :: "menu \<Rightarrow> nat \<Rightarrow> bool" where
  "targetIsLeaf s index =
     (case menuSelectionChain s of
        [] \<Rightarrow> False
      | center # _ \<Rightarrow>
         (case getItem (heap s) center of
            None \<Rightarrow> False
          | Some centerItem \<Rightarrow>
              index < length (mi_children centerItem) \<and>
              (case getItem (heap s) (mi_children centerItem ! index) of
                 None \<Rightarrow> False
               | Some childItem \<Rightarrow> mi_children childItem = [])))"

text \<open>The outward notification \<^verbatim>\<open>onSelect\<close> among the effects.\<close>

fun isOnSelect :: "effect \<Rightarrow> bool" where
  "isOnSelect (OnSelect m i) = True"
| "isOnSelect e = False"

text \<open>
  A menu tree is present: the menu refers to a root item that has not been destroyed.
\<close>

definition treePresent :: "menu \<Rightarrow> bool" where
  "treePresent s =
     (case menuRoot s of
        None \<Rightarrow> False
      | Some r \<Rightarrow> (case getItem (heap s) r of None \<Rightarrow> False | Some it \<Rightarrow> \<not> mi_destroyed it))"

text \<open>
  The constraints on the fixed angles of one level in the words of the specification,
  for the angles the solver takes as fixed, which are the supplied ones that are not
  negative: they increase strictly in list order, none is 360 or more, and none differs
  from the parent-link angle by less than one degree.
\<close>

definition suppliedFixedAngles :: "item list \<Rightarrow> rat list" where
  "suppliedFixedAngles items =
     concat (map (\<lambda>item. case item_angle item of
                            Some a \<Rightarrow> (if a \<ge> 0 then [a] else [])
                          | None \<Rightarrow> []) items)"

definition angleConstraintsViolated :: "item list \<Rightarrow> rat option \<Rightarrow> bool" where
  "angleConstraintsViolated items parentAngle =
     (let fixed = suppliedFixedAngles items in
      \<not> sorted_wrt (<) fixed
      \<or> (\<exists>a \<in> set fixed. a \<ge> 360)
      \<or> (case parentAngle of Some p \<Rightarrow> (\<exists>a \<in> set fixed. \<bar>a - p\<bar> < 1) | None \<Rightarrow> False))"







section \<open>The stages of show\<close>

text \<open>
  Names for the intermediate values of show: the test for a list of children, the menu
  after the previous tree is destroyed, the structure with name, icon and root angle
  set, the result of the angle solver, the structure with all ids, and the opened menu.
\<close>

definition hasChildren :: "item \<Rightarrow> bool" where
  "hasChildren structure =
     (case item_children structure of Some cs \<Rightarrow> length cs > 0 | None \<Rightarrow> False)"

definition destroyPrevious :: "menu \<Rightarrow> bool \<Rightarrow> menu" where
  "destroyPrevious s pm =
     (case menuRoot s of Some r \<Rightarrow> s\<lparr>heap := destroy r (heap s)\<rparr> | None \<Rightarrow> s)\<lparr>previewMode := pm\<rparr>"

definition prepared :: "item \<Rightarrow> item" where
  "prepared structure =
     set_angle
       (let st1 = (if item_name structure = None then set_name structure (Some ''root'')
                   else structure)
        in if item_icon st1 = None then set_icon st1 (Some ''image-missing'') else st1)
       (Some 0)"

definition solved :: "item \<Rightarrow> bool \<times> item list" where
  "solved structure =
     updateItemAngles (case item_children structure of Some cs \<Rightarrow> cs | None \<Rightarrow> []) None"

definition identified :: "item \<Rightarrow> item" where
  "identified structure =
     set_children
       (set_id (set_children (prepared structure) (Some (snd (solved structure)))) (Some ''/''))
       (Some (updateItemIDs (snd (solved structure)) None))"

definition opened :: "config \<Rightarrow> pointer \<Rightarrow> menu \<Rightarrow> menu_id \<Rightarrow> item \<Rightarrow> bool \<Rightarrow> menu" where
  "opened cfg ptr s mid structure pm =
     (let s4 = (destroyPrevious s pm)\<lparr>effects := effects s @ [BackgroundShow pm],
                                          menuID := Some mid\<rparr>;
          rh = createMenuItem (identified structure) (heap s4);
          h2 = setState (fst rh) CENTER_HOVERED (Some (- 1)) (snd rh)
      in s4\<lparr>menuRoot := Some (fst rh),
              menuSelectionChain := menuSelectionChain s4 @ [fst rh],
              heap := h2,
              effects := effects s4 @ [Redraw, SetItemAngles (childAngles h2 (fst rh)) None]
                 @ (if pm then [] else clampAndWarp cfg ptr)\<rparr>)"

section \<open>Notions of the proofs\<close>






section \<open>Evaluation lemmas\<close>

lemma floor_rat_numeral: "\<lfloor>numeral a / numeral b :: rat\<rfloor> = numeral a div numeral b"
  using floor_divide_of_int_eq [of "numeral a" "numeral b", where ?'a = rat] by simp

lemma updateItemAngles_three:
  "updateItemAngles [Item n1 i1 None None None, Item n2 i2 None None None,
                     Item n3 i3 None None None] None
   = (True, [Item n1 i1 (Some 90) None None, Item n2 i2 (Some 210) None None,
             Item n3 i3 (Some 330) None None])"
  by (simp add: updateItemAngles.simps solveLevel_def collectFixedAngles_def enumerate_eq_zip
      assignWedges.simps assignWedge.simps Let_def js_rem_def floor_rat_numeral)

lemma updateItemIDs_three:
  "updateItemIDs [Item n1 i1 a1 None None, Item n2 i2 a2 None None,
                  Item n3 i3 a3 None None] None
   = [Item n1 i1 a1 (Some ''/0'') None, Item n2 i2 a2 (Some ''/1'') None,
      Item n3 i3 a3 (Some ''/2'') None]"
  by (simp add: updateItemIDs_def string_of_nat.simps Let_def)

lemma exampleMenu_eq:
  "exampleMenu =
  \<lparr>menuID = Some (IdStr ''m1''), previewMode = False, draggedChild = None,
     menuSelectionChain = [0], menuRoot = Some 0,
     heap =
       [\<lparr>mi_id = Some ''/'', mi_caption = Some ''root'',
           mi_icon = Some ''image-missing'', mi_angle = Some 0,
           mi_state = Some CENTER_HOVERED, mi_activeChildIndex = Some (- 1),
           mi_children = [1, 2, 5], mi_destroyed = False\<rparr>,
        \<lparr>mi_id = Some ''/0'', mi_caption = Some ''A'', mi_icon = None,
           mi_angle = Some 90, mi_state = None, mi_activeChildIndex = None,
           mi_children = [], mi_destroyed = False\<rparr>,
        \<lparr>mi_id = Some ''/1'', mi_caption = Some ''B'', mi_icon = None,
           mi_angle = Some 210, mi_state = None, mi_activeChildIndex = None,
           mi_children = [3, 4], mi_destroyed = False\<rparr>,
        \<lparr>mi_id = Some ''/1/0'', mi_caption = Some ''B1'', mi_icon = None,
           mi_angle = Some 270, mi_state = None, mi_activeChildIndex = None,
           mi_children = [], mi_destroyed = False\<rparr>,
        \<lparr>mi_id = Some ''/1/1'', mi_caption = Some ''B2'', mi_icon = None,
           mi_angle = Some 150, mi_state = None, mi_activeChildIndex = None,
           mi_children = [], mi_destroyed = False\<rparr>,
        \<lparr>mi_id = Some ''/2'', mi_caption = Some ''C'', mi_icon = None,
           mi_angle = Some 330, mi_state = None, mi_activeChildIndex = None,
           mi_children = [], mi_destroyed = False\<rparr>],
     effects =
       [BackgroundShow False, Redraw,
        SetItemAngles [Some 90, Some 210, Some 330] None,
        WarpPointer 164 500]\<rparr>"
  by code_simp

text \<open>The definition of show, by stages.\<close>

lemma prepared_children: "item_children (prepared structure) = item_children structure"
  by (cases "structure") (simp add: prepared_def Let_def)

lemma destroyPrevious_effects: "effects (destroyPrevious s pm) = effects s"
  by (cases "menuRoot s") (simp_all add: destroyPrevious_def)

lemma show_unfold:
  "show cfg ptr grabOk s mid structure pm =
     (if truthy_id (menuID s) then (Inl eAlreadyActive, s, structure)
      else if \<not> hasChildren structure then (Inl ePropertyMissing, s, structure)
      else if \<not> fst (solved structure)
        then (Inl eInvalidAngles, destroyPrevious s pm,
              set_children (prepared structure) (Some (snd (solved structure))))
      else if \<not> grabOk
        then (Inl eUnknownError,
              (destroyPrevious s pm)\<lparr>effects := effects s @ [BackgroundShow pm]\<rparr>,
              identified structure)
      else (Inr mid, opened cfg ptr s mid structure pm, identified structure))"
  unfolding show_def hasChildren_def solved_def prepared_def destroyPrevious_def identified_def
    opened_def Let_def split_beta
  by (cases "menuRoot s") (simp_all add: prepared_children [unfolded prepared_def Let_def])

section \<open>The end-to-end example of show\<close>

text \<open>
  C1. A show-request whose root has three children without angles, ids and children of
  their own, arriving while no menu is active and with the input grab succeeding, returns
  the id it was passed. The angle solver gives the three children the angles 90, 210 and
  330 and the id assignment the ids \<^verbatim>\<open>/0\<close>, \<^verbatim>\<open>/1\<close> and \<^verbatim>\<open>/2\<close>, whatever their names and
  icons, the preview flag, the pointer and the configuration are.
\<close>

theorem show_three_children:
  assumes "\<not> truthy_id (menuID s)"
  shows "fst (show cfg ptr True s mid
           (Item rn ri ra rid (Some [Item n1 i1 None None None, Item n2 i2 None None None,
                                     Item n3 i3 None None None])) pm) = Inr mid
       \<and> item_children (snd (snd (show cfg ptr True s mid
           (Item rn ri ra rid (Some [Item n1 i1 None None None, Item n2 i2 None None None,
                                     Item n3 i3 None None None])) pm)))
         = Some [Item n1 i1 (Some 90) (Some ''/0'') None,
                 Item n2 i2 (Some 210) (Some ''/1'') None,
                 Item n3 i3 (Some 330) (Some ''/2'') None]"
  using assms
  by (cases rn; cases ri)
     (simp_all add: show_def updateItemAngles_three updateItemIDs_three Let_def
        split: prod.splits)

theorem show_three_children_witness:
  "\<not> truthy_id (menuID newMenu)
   \<and> fst (show exampleConfig examplePointer True newMenu (IdStr ''m1'')
           (Item None None None None (Some [leafItem ''A'', leafItem ''B'', leafItem ''C'']))
           False) = Inr (IdStr ''m1'')
   \<and> map item_angle (the (item_children (snd (snd
         (show exampleConfig examplePointer True newMenu (IdStr ''m1'')
           (Item None None None None (Some [leafItem ''A'', leafItem ''B'', leafItem ''C'']))
           False))))) = [Some 90, Some 210, Some 330]
   \<and> map item_id (the (item_children (snd (snd
         (show exampleConfig examplePointer True newMenu (IdStr ''m1'')
           (Item None None None None (Some [leafItem ''A'', leafItem ''B'', leafItem ''C'']))
           False))))) = [Some ''/0'', Some ''/1'', Some ''/2'']"
proof -
  have idle: "\<not> truthy_id (menuID newMenu)"
    by (simp add: newMenu_def)
  show ?thesis
    using idle
      show_three_children [OF idle, of exampleConfig examplePointer "IdStr ''m1''"
        None None None None "Some ''A''" None "Some ''B''" None "Some ''C''" None False]
    by (simp add: leafItem_def)
qed

section \<open>The placement clamp\<close>

text \<open>
  Flooring a value clipped to \<open>[lo, hi]\<close> and clipping and flooring again changes nothing,
  whatever the bounds are, also when \<open>hi < lo\<close> or when the floor falls below \<open>lo\<close>.
\<close>

lemma floor_clip_idem:
  fixes x lo hi :: rat
  shows "js_floor (min (max (js_floor (min (max x lo) hi)) lo) hi) = js_floor (min (max x lo) hi)"
proof -
  define p where "p = min (max x lo) hi"
  define c :: rat where "c = of_int \<lfloor>p\<rfloor>"
  have c_le: "c \<le> p" and p_lt: "p < c + 1"
    unfolding c_def by linarith+
  have p_hi: "p \<le> hi" and p_lo: "min lo hi \<le> p"
    unfolding p_def by auto
  have "c \<le> min (max c lo) hi"
    using c_le p_hi by auto
  moreover have "min (max c lo) hi < c + 1"
    using p_lt p_lo by (auto simp: min_def max_def split: if_splits)
  ultimately have "\<lfloor>min (max c lo) hi\<rfloor> = \<lfloor>p\<rfloor>"
    unfolding c_def by (simp add: floor_eq_iff)
  then show ?thesis
    unfolding js_floor_def p_def c_def by simp
qed

text \<open>
  C6. The clamp is idempotent: clamping the clamped point again, with the same margin,
  settings and monitor, returns the clamped point.
\<close>

theorem clamp_idempotent:
  "clampToToMonitor st mon (fst (clampToToMonitor st mon x y margin))
       (snd (clampToToMonitor st mon x y margin)) margin
   = clampToToMonitor st mon x y margin"
  by (simp add: clampToToMonitor_def Let_def floor_clip_idem)








section \<open>The checks of the angle solver\<close>

lemma collect_enumerate:
  "map fst (concat (map (\<lambda>(index, item).
        (case item_angle item of
           Some a \<Rightarrow> (if a \<ge> 0 then [(a, index)] else [])
         | None \<Rightarrow> []))
       (enumerate n items))) = suppliedFixedAngles items"
  by (induction items arbitrary: n) (auto simp: suppliedFixedAngles_def split: option.splits)

lemma collectFixedAngles_angles: "map fst (collectFixedAngles items) = suppliedFixedAngles items"
  unfolding collectFixedAngles_def by (rule collect_enumerate)

lemma suppliedFixedAngles_nonneg: "a \<in> set (suppliedFixedAngles items) \<Longrightarrow> 0 \<le> a"
  by (auto simp: suppliedFixedAngles_def split: option.splits if_splits)

lemma checkMonotonic_iff:
  "checkMonotonic prev fa \<longleftrightarrow>
     sorted_wrt (<) ((case prev of Some p \<Rightarrow> [p] | None \<Rightarrow> []) @ map fst fa)
     \<and> (\<forall>a \<in> set (map fst fa). 0 \<le> a \<and> a < 360)"
proof (induction fa arbitrary: prev)
  case Nil
  then show ?case by (simp split: option.splits)
next
  case (Cons x fa)
  obtain a index where x: "x = (a, index)" by (cases x)
  show ?case
    unfolding x by (cases prev) (auto simp: Cons.IH)
qed

lemma checkParentCollision_Some:
  "checkParentCollision (Some p) fa \<longleftrightarrow> (\<forall>a \<in> set (map fst fa). \<not> \<bar>a - p\<bar> < 1)"
  by (induction fa) (auto split: if_splits)

lemma checkParentCollision_iff:
  "checkParentCollision pa fa \<longleftrightarrow>
     (case pa of Some p \<Rightarrow> (\<forall>a \<in> set (map fst fa). \<not> \<bar>a - p\<bar> < 1) | None \<Rightarrow> True)"
  by (cases pa) (simp_all only: checkParentCollision_Some checkParentCollision.simps option.case)

lemma solveLevel_rejects:
  "fst (solveLevel items pa) \<longleftrightarrow> \<not> angleConstraintsViolated items pa"
proof -
  have "fst (solveLevel items pa) \<longleftrightarrow>
        checkMonotonic None (collectFixedAngles items) \<and> checkParentCollision pa (collectFixedAngles items)"
    by (simp add: solveLevel_def Let_def)
  also have "\<dots> \<longleftrightarrow> \<not> angleConstraintsViolated items pa"
    unfolding checkMonotonic_iff checkParentCollision_iff collectFixedAngles_angles
      angleConstraintsViolated_def Let_def
    using suppliedFixedAngles_nonneg [of _ items]
    by (cases pa) (auto simp: not_le)
  finally show ?thesis .
qed

lemma violated_nonempty: "angleConstraintsViolated items pa \<Longrightarrow> items \<noteq> []"
  by (auto simp: angleConstraintsViolated_def suppliedFixedAngles_def Let_def split: option.splits)

lemma updateItemAngles_result:
  "fst (updateItemAngles items pa) \<longleftrightarrow> items = [] \<or> fst (solveLevel items pa)"
  by (subst updateItemAngles.simps) (auto split: prod.splits bool.splits)




section \<open>Invalid angles below the first level\<close>

text \<open>
  The value that the solver returns depends on the fixed angles of the level it is called
  for, never on the levels below it.
\<close>

lemma updateItemAngles_top_level_only:
  "fst (updateItemAngles items parentAngle) \<longleftrightarrow> \<not> angleConstraintsViolated items parentAngle"
  using violated_nonempty [of items parentAngle]
  by (auto simp: updateItemAngles_result solveLevel_rejects)

text \<open>
  C4. The solver does recurse into the children of every item with the parent angle
  \<open>(angle + 180) mod 360\<close>, but the result of the recursive call is lost: for a menu whose
  only item, at the solved angle 90, has two children with the fixed angles 30 and 10,
  the call for the children (parent link 270) returns false, the call for the top level
  returns true, and show opens the menu and returns its id instead of failing.
\<close>

theorem nested_invalid_angles_not_reported:
  "fst (updateItemAngles invalidLevel (Some 270)) = False
   \<and> updateItemAngles [Item (Some ''A'') None None None (Some invalidLevel)] None
       = (True, [Item (Some ''A'') None (Some 90) None (Some invalidLevel)])
   \<and> childParentAngle (Item (Some ''A'') None (Some 90) None (Some invalidLevel)) = Some 270
   \<and> fst (show exampleConfig examplePointer True newMenu (IdStr ''m1'')
             nestedInvalidStructure False) = Inr (IdStr ''m1'')"
  by code_simp

section \<open>The previous tree and a failing show\<close>

lemma getItem_destroy:
  "getItem (destroy r h) r = (if r < length h then Some ((h ! r)\<lparr>mi_destroyed := True\<rparr>) else None)"
  by (simp add: getItem_def destroy_def)

lemma not_treePresent_destroyPrevious:
  "\<not> treePresent (destroyPrevious s pm)"
  "\<not> treePresent ((destroyPrevious s pm)\<lparr>effects := e\<rparr>)"
  by (cases "menuRoot s"; simp add: destroyPrevious_def treePresent_def getItem_destroy)+

text \<open>
  C5, as stated, fails: the test for the children of the root comes before the previous
  tree is destroyed. A request without children that arrives while the tree of a hidden
  menu is still there fails with PropertyMissing and leaves that tree as it is.
\<close>

theorem show_property_missing_keeps_tree:
  "\<not> truthy_id (menuID fadingMenu) \<and> treePresent fadingMenu
   \<and> fst (show exampleConfig examplePointer True fadingMenu (IdStr ''m2'') (leafItem ''X'') False)
       = Inl ePropertyMissing
   \<and> treePresent (fst (snd (show exampleConfig examplePointer True fadingMenu (IdStr ''m2'')
                               (leafItem ''X'') False)))"
  by code_simp

text \<open>
  C5, amended. A show-request that fails with PropertyMissing leaves the menu, and with it
  a previous tree, untouched. The previous tree is destroyed after that test and before
  the angles are validated, so a request that fails with InvalidAngles, or with
  UnknownError, leaves no menu tree present.
\<close>

theorem show_failure_previous_tree:
  "(fst (show cfg ptr grabOk s mid structure pm) = Inl ePropertyMissing \<longrightarrow>
      fst (snd (show cfg ptr grabOk s mid structure pm)) = s)
   \<and> (fst (show cfg ptr grabOk s mid structure pm) = Inl eInvalidAngles
        \<or> fst (show cfg ptr grabOk s mid structure pm) = Inl eUnknownError \<longrightarrow>
      \<not> treePresent (fst (snd (show cfg ptr grabOk s mid structure pm))))"
proof -
  consider (active) "truthy_id (menuID s)"
    | (missing) "\<not> truthy_id (menuID s)" "\<not> hasChildren structure"
    | (invalid) "\<not> truthy_id (menuID s)" "hasChildren structure" "\<not> fst (solved structure)"
    | (nograb) "\<not> truthy_id (menuID s)" "hasChildren structure" "fst (solved structure)"
        "\<not> grabOk"
    | (ok) "\<not> truthy_id (menuID s)" "hasChildren structure" "fst (solved structure)" "grabOk"
    by blast
  then show ?thesis
  proof cases
    case active
    then show ?thesis by (simp add: show_unfold)
  next
    case missing
    then show ?thesis by (simp add: show_unfold)
  next
    case invalid
    then show ?thesis by (simp add: show_unfold not_treePresent_destroyPrevious)
  next
    case nograb
    then show ?thesis by (simp add: show_unfold not_treePresent_destroyPrevious)
  next
    case ok
    then show ?thesis by (simp add: show_unfold)
  qed
qed

theorem show_failure_previous_tree_witness:
  "fst (show exampleConfig examplePointer True fadingMenu (IdStr ''m2'') (leafItem ''X'') False)
       = Inl ePropertyMissing
   \<and> fst (snd (show exampleConfig examplePointer True fadingMenu (IdStr ''m2'')
                  (leafItem ''X'') False)) = fadingMenu
   \<and> treePresent fadingMenu
   \<and> fst (show exampleConfig examplePointer True fadingMenu (IdStr ''m2'')
            (Item None None None None (Some invalidLevel)) False) = Inl eInvalidAngles
   \<and> \<not> treePresent (fst (snd (show exampleConfig examplePointer True fadingMenu (IdStr ''m2'')
            (Item None None None None (Some invalidLevel)) False)))"
proof -
  have m: "fst (show exampleConfig examplePointer True fadingMenu (IdStr ''m2'') (leafItem ''X'') False)
       = Inl ePropertyMissing"
    by code_simp
  have i: "fst (show exampleConfig examplePointer True fadingMenu (IdStr ''m2'')
            (Item None None None None (Some invalidLevel)) False) = Inl eInvalidAngles"
    by code_simp
  have t: "treePresent fadingMenu"
    by code_simp
  show ?thesis
    using m i t
      show_failure_previous_tree [of exampleConfig examplePointer True fadingMenu "IdStr ''m2''"
        "leafItem ''X''" False]
      show_failure_previous_tree [of exampleConfig examplePointer True fadingMenu "IdStr ''m2''"
        "Item None None None None (Some invalidLevel)" False]
    by blast
qed

section \<open>A second show\<close>



section \<open>Selecting a leaf while the button is held\<close>

lemma clampAndWarp_no_select: "filter isOnSelect (clampAndWarp cfg ptr) = []"
  by (simp add: clampAndWarp_def split: prod.splits)

text \<open>
  C9. A child-selected event whose target is a leaf, arriving while the primary button is
  held, leaves the menu exactly as it was: the selection chain, the states of all items
  and the effects, so no \<^verbatim>\<open>onSelect\<close> fires. More generally no child-selected event fires
  \<^verbatim>\<open>onSelect\<close> while the button is held, whatever its target: a leaf commits only with
  the button released.
\<close>

theorem leaf_selection_while_held_ignored:
  "(targetIsLeaf s index \<and> button1 ptr \<longrightarrow> childSelected cfg ptr index s = Some s)
   \<and> (button1 ptr \<and> childSelected cfg ptr index s = Some s' \<longrightarrow>
        filter isOnSelect (effects s') = filter isOnSelect (effects s))"
proof (intro conjI impI)
  assume "targetIsLeaf s index \<and> button1 ptr"
  then show "childSelected cfg ptr index s = Some s"
    by (auto simp: targetIsLeaf_def childSelected_def split: list.splits option.splits)
next
  assume "button1 ptr \<and> childSelected cfg ptr index s = Some s'"
  then show "filter isOnSelect (effects s') = filter isOnSelect (effects s)"
    by (auto simp: childSelected_def Let_def clampAndWarp_no_select
        split: list.splits option.splits if_splits)
qed

theorem leaf_selection_while_held_ignored_witness:
  "targetIsLeaf exampleMenu 0 \<and> button1 heldPointer
   \<and> childSelected exampleConfig heldPointer 0 exampleMenu = Some exampleMenu
   \<and> filter isOnSelect (effects exampleMenu) = []"
proof -
  have leaf: "targetIsLeaf exampleMenu 0"
    by (simp add: exampleMenu_eq targetIsLeaf_def getItem_def)
  have held: "button1 heldPointer"
    by (simp add: heldPointer_def)
  have no: "filter isOnSelect (effects exampleMenu) = []"
    by (simp add: exampleMenu_eq)
  from leaf held
    leaf_selection_while_held_ignored [of exampleMenu 0 heldPointer exampleConfig exampleMenu]
  show ?thesis using no by simp
qed

section \<open>The selection chain\<close>























section \<open>The angles of a solved level\<close>












section \<open>What show writes into the structure\<close>













end
